theory Spec2Isabelle
  imports Complex_Main "HOL-Library.Word" "HOL-Library.Multiset"
begin

unbundle bit_operations_syntax

section \<open>Machine types\<close>

text \<open>
  \<^verbatim>\<open>common.Address\<close> is a 20-byte array, \<^verbatim>\<open>uint64\<close> a 64-bit word whose
  addition wraps. A \<^verbatim>\<open>float64\<close> is modelled by its IEEE 754 binary64 bit pattern:
  bit 63 is the sign, bits 62..52 the biased exponent, bits 51..0 the fraction.
\<close>

type_synonym address = "160 word"
type_synonym uint64 = "64 word"
type_synonym float64 = "64 word"

section \<open>IEEE 754 binary64 arithmetic\<close>

text \<open>
  Go evaluates \<^verbatim>\<open>+ - * /\<close> on \<^verbatim>\<open>float64\<close> as IEEE 754 prescribes: the operands
  are read as exact rationals, the operation is carried out exactly, and the result is
  rounded to the nearest representable value, ties to the even significand. The model
  follows that definition. Every operation is rounded on its own (no fused
  multiply-add), and every NaN the arithmetic produces is the quiet NaN
  \<^verbatim>\<open>0x7FF8000000000000\<close>; properties below speak of NaN results through
  \<open>f64_is_nan\<close> only.
\<close>

subsection \<open>Decoding\<close>

text \<open>
  What a bit pattern stands for: NaN, an infinity with its sign, or the finite value
  \<open>\<plusminus> n / d\<close> (\<open>Fin s n d\<close>, negative when \<open>s\<close>), a fraction of two naturals in lowest
  terms. Both zeros are finite values.
\<close>

datatype fval = NaN | Inf bool | Fin bool nat nat

text \<open>\<open>fin s n k\<close> is \<open>\<plusminus> n / 2^k\<close>, with the common factors of two cancelled.\<close>

fun fin :: "bool \<Rightarrow> nat \<Rightarrow> nat \<Rightarrow> fval" where
  "fin s n k =
     (if n = 0 then Fin s 0 1
      else if k = 0 \<or> odd n then Fin s n (2 ^ k)
      else fin s (n div 2) (k - 1))"

declare fin.simps [simp del]

text \<open>
  The fields: sign \<open>s\<close>, biased exponent \<open>e\<close>, fraction \<open>f\<close>. An exponent of 2047 is
  an infinity or a NaN, an exponent of 0 a subnormal number \<open>f * 2^(-1074)\<close>, any other
  the normal number \<open>(2^52 + f) * 2^(e - 1075)\<close>.
\<close>

definition decode_fields :: "bool \<Rightarrow> nat \<Rightarrow> nat \<Rightarrow> fval" where
  "decode_fields s e f =
     (if e = 2047 then (if f = 0 then Inf s else NaN)
      else if e = 0 then fin s f 1074
      else if e < 1075 then fin s (2 ^ 52 + f) (1075 - e)
      else Fin s ((2 ^ 52 + f) * 2 ^ (e - 1075)) 1)"

definition f64_decode :: "float64 \<Rightarrow> fval" where
  "f64_decode x =
     decode_fields (2 ^ 63 \<le> unat x) ((unat x div 2 ^ 52) mod 2048) (unat x mod 2 ^ 52)"

definition f64_is_nan :: "float64 \<Rightarrow> bool" where
  "f64_is_nan x = (f64_decode x = NaN)"

definition signed :: "bool \<Rightarrow> nat \<Rightarrow> int" where
  "signed s n = (if s then - int n else int n)"

text \<open>The value of a finite float (0 for the others, which no property below reads).\<close>

definition valof :: "float64 \<Rightarrow> rat" where
  "valof x = (case f64_decode x of Fin s n d \<Rightarrow> of_int (signed s n) / of_nat d | _ \<Rightarrow> 0)"

subsection \<open>Rounding\<close>

definition f64_make :: "bool \<Rightarrow> nat \<Rightarrow> float64" where
  "f64_make s p = word_of_nat ((if s then 2 ^ 63 else 0) + p)"

definition f64_zero :: "bool \<Rightarrow> float64" where
  "f64_zero s = f64_make s 0"

definition f64_inf :: "bool \<Rightarrow> float64" where
  "f64_inf s = f64_make s (2047 * 2 ^ 52)"

definition f64_nan :: float64 where
  "f64_nan = f64_make False (2047 * 2 ^ 52 + 2 ^ 51)"

fun bit_length :: "nat \<Rightarrow> nat" where
  "bit_length n = (if n = 0 then 0 else Suc (bit_length (n div 2)))"

declare bit_length.simps [simp del]

text \<open>
  \<open>floor_log2 n d\<close> is the integer \<open>l\<close> with \<open>2^l \<le> n / d < 2^(l + 1)\<close>, for positive
  \<open>n\<close> and \<open>d\<close>: the difference of the bit lengths, or one less.
\<close>

definition log_adjust :: "int \<Rightarrow> nat \<Rightarrow> nat \<Rightarrow> int" where
  "log_adjust l n d =
     (if (if 0 \<le> l then d * 2 ^ nat l \<le> n else d \<le> n * 2 ^ nat (- l)) then l else l - 1)"

definition floor_log2 :: "nat \<Rightarrow> nat \<Rightarrow> int" where
  "floor_log2 n d = log_adjust (int (bit_length n) - int (bit_length d)) n d"

text \<open>The integer nearest to \<open>n / d\<close>, a tie going to the even one.\<close>

definition rne_pick :: "nat \<Rightarrow> nat \<Rightarrow> nat \<Rightarrow> nat" where
  "rne_pick q r d = (if 2 * r < d then q else if d < 2 * r then q + 1 else q + q mod 2)"

definition rne_div :: "nat \<Rightarrow> nat \<Rightarrow> nat" where
  "rne_div n d = rne_pick (n div d) (n mod d) d"

text \<open>
  \<open>f64_round s n d\<close> rounds the exact value \<open>\<plusminus> n / d\<close> (negative when \<open>s\<close>; \<open>d > 0\<close>)
  to binary64. With \<open>k\<close> the biased exponent of the binade below the value's (0 in the
  subnormal range), the value is scaled by \<open>2^(1074 - k)\<close> and rounded to an integer
  significand \<open>m\<close> of at most 53 bits; the pattern is \<open>k * 2^52 + m\<close>: the leading
  bit of a normal significand, and a carry out of the fraction, add into the exponent
  field. A pattern at or beyond the exponent 2047 is an overflow to infinity.
\<close>

definition round_mant :: "nat \<Rightarrow> nat \<Rightarrow> nat \<Rightarrow> nat" where
  "round_mant k n d =
     (if k \<le> 1074 then rne_div (n * 2 ^ (1074 - k)) d else rne_div n (d * 2 ^ (k - 1074)))"

definition pack :: "bool \<Rightarrow> nat \<Rightarrow> float64" where
  "pack s p = (if 2047 * 2 ^ 52 \<le> p then f64_inf s else f64_make s p)"

definition round_at :: "bool \<Rightarrow> nat \<Rightarrow> nat \<Rightarrow> nat \<Rightarrow> float64" where
  "round_at s k n d = pack s (k * 2 ^ 52 + round_mant k n d)"

definition f64_round :: "bool \<Rightarrow> nat \<Rightarrow> nat \<Rightarrow> float64" where
  "f64_round s n d =
     (if n = 0 then f64_zero s else round_at s (nat (floor_log2 n d + 1022)) n d)"

subsection \<open>Operations\<close>

text \<open>
  An exact sum \<open>z / d\<close> that is zero has the sign \<open>sz\<close>: negative only when both
  operands are negative zeros.
\<close>

definition round_sum :: "int \<Rightarrow> bool \<Rightarrow> nat \<Rightarrow> float64" where
  "round_sum z sz d = (if z = 0 then f64_zero sz else f64_round (z < 0) (nat \<bar>z\<bar>) d)"

fun add_val :: "fval \<Rightarrow> fval \<Rightarrow> float64" where
  "add_val NaN y = f64_nan"
| "add_val (Inf s) NaN = f64_nan"
| "add_val (Inf s) (Inf t) = (if s = t then f64_inf s else f64_nan)"
| "add_val (Inf s) (Fin t m e) = f64_inf s"
| "add_val (Fin s n d) NaN = f64_nan"
| "add_val (Fin s n d) (Inf t) = f64_inf t"
| "add_val (Fin s n d) (Fin t m e) =
     round_sum (signed s n * int e + signed t m * int d) (s \<and> t) (d * e)"

fun neg_val :: "fval \<Rightarrow> fval" where
  "neg_val NaN = NaN"
| "neg_val (Inf s) = Inf (\<not> s)"
| "neg_val (Fin s n d) = Fin (\<not> s) n d"

fun mul_val :: "fval \<Rightarrow> fval \<Rightarrow> float64" where
  "mul_val NaN y = f64_nan"
| "mul_val (Inf s) NaN = f64_nan"
| "mul_val (Inf s) (Inf t) = f64_inf (s \<noteq> t)"
| "mul_val (Inf s) (Fin t m e) = (if m = 0 then f64_nan else f64_inf (s \<noteq> t))"
| "mul_val (Fin s n d) NaN = f64_nan"
| "mul_val (Fin s n d) (Inf t) = (if n = 0 then f64_nan else f64_inf (s \<noteq> t))"
| "mul_val (Fin s n d) (Fin t m e) = f64_round (s \<noteq> t) (n * m) (d * e)"

fun div_val :: "fval \<Rightarrow> fval \<Rightarrow> float64" where
  "div_val NaN y = f64_nan"
| "div_val (Inf s) NaN = f64_nan"
| "div_val (Inf s) (Inf t) = f64_nan"
| "div_val (Inf s) (Fin t m e) = f64_inf (s \<noteq> t)"
| "div_val (Fin s n d) NaN = f64_nan"
| "div_val (Fin s n d) (Inf t) = f64_zero (s \<noteq> t)"
| "div_val (Fin s n d) (Fin t m e) =
     (if m = 0 then (if n = 0 then f64_nan else f64_inf (s \<noteq> t))
      else f64_round (s \<noteq> t) (n * e) (d * m))"

fun lt_val :: "fval \<Rightarrow> fval \<Rightarrow> bool" where
  "lt_val NaN y = False"
| "lt_val (Inf s) NaN = False"
| "lt_val (Inf s) (Inf t) = (s \<and> \<not> t)"
| "lt_val (Inf s) (Fin t m e) = s"
| "lt_val (Fin s n d) NaN = False"
| "lt_val (Fin s n d) (Inf t) = (\<not> t)"
| "lt_val (Fin s n d) (Fin t m e) = (signed s n * int e < signed t m * int d)"

definition f64_add :: "float64 \<Rightarrow> float64 \<Rightarrow> float64" where
  "f64_add x y = add_val (f64_decode x) (f64_decode y)"

definition f64_sub :: "float64 \<Rightarrow> float64 \<Rightarrow> float64" where
  "f64_sub x y = add_val (f64_decode x) (neg_val (f64_decode y))"

definition f64_mul :: "float64 \<Rightarrow> float64 \<Rightarrow> float64" where
  "f64_mul x y = mul_val (f64_decode x) (f64_decode y)"

definition f64_div :: "float64 \<Rightarrow> float64 \<Rightarrow> float64" where
  "f64_div x y = div_val (f64_decode x) (f64_decode y)"

text \<open>
  \<^verbatim>\<open>x < y\<close> and \<^verbatim>\<open>x >= y\<close>: false as soon as one side is NaN; the two zeros are
  equal.
\<close>

definition f64_lt :: "float64 \<Rightarrow> float64 \<Rightarrow> bool" where
  "f64_lt x y = lt_val (f64_decode x) (f64_decode y)"

definition f64_ge :: "float64 \<Rightarrow> float64 \<Rightarrow> bool" where
  "f64_ge x y = (\<not> f64_is_nan x \<and> \<not> f64_is_nan y \<and> \<not> f64_lt x y)"

definition f64_le :: "float64 \<Rightarrow> float64 \<Rightarrow> bool" where
  "f64_le x y = f64_ge y x"

text \<open>
  \<^verbatim>\<open>float64(i)\<close> for a non-negative \<^verbatim>\<open>int\<close> (a slice index or length) and
  \<^verbatim>\<open>float64(u)\<close> for a \<^verbatim>\<open>uint64\<close>: the nearest float.
\<close>

definition f64_of_nat :: "nat \<Rightarrow> float64" where
  "f64_of_nat n = f64_round False n 1"

definition f64_of_uint64 :: "uint64 \<Rightarrow> float64" where
  "f64_of_uint64 u = f64_of_nat (unat u)"

text \<open>
  \<^verbatim>\<open>math.Round\<close>: the nearest integer, halves away from zero; NaN, the infinities
  and both zeros are returned as they are, and the sign is kept.
\<close>

fun round_val :: "float64 \<Rightarrow> fval \<Rightarrow> float64" where
  "round_val x NaN = x"
| "round_val x (Inf s) = x"
| "round_val x (Fin s n d) = (if n = 0 then x else f64_round s ((2 * n + d) div (2 * d)) 1)"

definition math_Round :: "float64 \<Rightarrow> float64" where
  "math_Round x = round_val x (f64_decode x)"

text \<open>The constant \<^verbatim>\<open>100\<close> of \<^verbatim>\<open>result*100\<close> and \<^verbatim>\<open>/ 100\<close>.\<close>

definition f64_100 :: float64 where
  "f64_100 = f64_of_nat 100"

section \<open>Staking information (reward/staking_info.go)\<close>

text \<open>The constant \<^verbatim>\<open>-1.0\<close>: sign 1, biased exponent 1023, fraction 0.\<close>

definition DefaultGiniCoefficient :: float64 where
  "DefaultGiniCoefficient = f64_make True (1023 * 2 ^ 52)"

definition maxStakingLimit :: nat where
  "maxStakingLimit = 100000000000"

record StakingInfo =
  BlockNum :: uint64
  CouncilNodeAddrs :: "address list"
  CouncilStakingAddrs :: "address list"
  CouncilRewardAddrs :: "address list"
  KIRAddr :: address
  PoCAddr :: address
  UseGini :: bool
  Gini :: float64
  CouncilStakingAmounts :: "uint64 list"

record consolidatedNode =
  NodeAddrs :: "address list"
  StakingAddrs :: "address list"
  RewardAddr :: address
  StakingAmount :: uint64

record ConsolidatedStakingInfo =
  nodes :: "consolidatedNode list"
  nodeIndex :: "address \<rightharpoonup> nat"

record stakingInfoRLP =
  rlpBlockNum :: uint64
  rlpCouncilNodeAddrs :: "address list"
  rlpCouncilStakingAddrs :: "address list"
  rlpCouncilRewardAddrs :: "address list"
  rlpKIRAddr :: address
  rlpPoCAddr :: address
  rlpUseGini :: bool
  rlpGini :: uint64
  rlpCouncilStakingAmounts :: "uint64 list"

definition newEmptyStakingInfo :: "uint64 \<Rightarrow> StakingInfo" where
  "newEmptyStakingInfo blockNum =
     \<lparr>BlockNum = blockNum, CouncilNodeAddrs = [], CouncilStakingAddrs = [],
      CouncilRewardAddrs = [], KIRAddr = 0, PoCAddr = 0, UseGini = False,
      Gini = DefaultGiniCoefficient, CouncilStakingAmounts = []\<rparr>"

subsection \<open>Serialisation\<close>

text \<open>
  \<^verbatim>\<open>math.Float64bits\<close> and \<^verbatim>\<open>math.Float64frombits\<close> reinterpret the eight bytes of
  a value; on the bit-pattern model of \<^verbatim>\<open>float64\<close> both leave the word as it is.
\<close>

definition Float64bits :: "float64 \<Rightarrow> uint64" where
  "Float64bits f = f"

definition Float64frombits :: "uint64 \<Rightarrow> float64" where
  "Float64frombits b = b"

text \<open>
  \<^verbatim>\<open>EncodeRLP\<close> hands a \<^verbatim>\<open>stakingInfoRLP\<close> to \<^verbatim>\<open>rlp.Encode\<close>, \<^verbatim>\<open>DecodeRLP\<close> reads
  one back with \<^verbatim>\<open>rlp.Stream.Decode\<close> and copies its fields. The \<^verbatim>\<open>rlp\<close> package is a
  parameter here: \<open>enc\<close> writes a \<^verbatim>\<open>stakingInfoRLP\<close> to the wire form \<open>'w\<close> or fails,
  \<open>dec\<close> reads one or fails (errors are of type \<open>'e\<close>).
\<close>

definition EncodeRLP :: "(stakingInfoRLP \<Rightarrow> 'e + 'w) \<Rightarrow> StakingInfo \<Rightarrow> 'e + 'w" where
  "EncodeRLP enc s =
     enc \<lparr>rlpBlockNum = BlockNum s, rlpCouncilNodeAddrs = CouncilNodeAddrs s,
          rlpCouncilStakingAddrs = CouncilStakingAddrs s,
          rlpCouncilRewardAddrs = CouncilRewardAddrs s, rlpKIRAddr = KIRAddr s,
          rlpPoCAddr = PoCAddr s, rlpUseGini = UseGini s,
          rlpGini = Float64bits (Gini s),
          rlpCouncilStakingAmounts = CouncilStakingAmounts s\<rparr>"

text \<open>
  \<^verbatim>\<open>DecodeRLP\<close> overwrites every field of its receiver \<open>s\<close>; on a decoding error the
  receiver is left as it was and the error is returned.
\<close>

definition DecodeRLP :: "('w \<Rightarrow> 'e + stakingInfoRLP) \<Rightarrow> StakingInfo \<Rightarrow> 'w \<Rightarrow> 'e + StakingInfo" where
  "DecodeRLP dec s st =
     (case dec st of
        Inl err \<Rightarrow> Inl err
      | Inr d \<Rightarrow>
          Inr (s\<lparr>BlockNum := rlpBlockNum d,
                 CouncilNodeAddrs := rlpCouncilNodeAddrs d,
                 CouncilStakingAddrs := rlpCouncilStakingAddrs d,
                 CouncilRewardAddrs := rlpCouncilRewardAddrs d,
                 KIRAddr := rlpKIRAddr d, PoCAddr := rlpPoCAddr d,
                 UseGini := rlpUseGini d, Gini := Float64frombits (rlpGini d),
                 CouncilStakingAmounts := rlpCouncilStakingAmounts d\<rparr>))"

subsection \<open>Consolidation\<close>

text \<open>
  The loop of \<^verbatim>\<open>GetConsolidatedStakingInfo\<close>, with \<open>j\<close> its counter, \<open>c\<close> the result
  under construction and \<open>rewardIndex\<close> the temporary map. A slice index out of range
  is a run-time panic: the result \<open>None\<close>.
\<close>

function consolidate_loop ::
  "StakingInfo \<Rightarrow> nat \<Rightarrow> ConsolidatedStakingInfo \<Rightarrow> (address \<rightharpoonup> nat) \<Rightarrow>
   ConsolidatedStakingInfo option" where
  "consolidate_loop s j c rewardIndex =
     (if j < length (CouncilNodeAddrs s) then
        if j < length (CouncilStakingAddrs s) \<and> j < length (CouncilRewardAddrs s) \<and>
           j < length (CouncilStakingAmounts s)
        then
          let nodeAddr = CouncilNodeAddrs s ! j;
              stakingAddr = CouncilStakingAddrs s ! j;
              rewardAddr = CouncilRewardAddrs s ! j;
              stakingAmount = CouncilStakingAmounts s ! j
          in (case rewardIndex rewardAddr of
                None \<Rightarrow>
                  let ns = nodes c @
                        [\<lparr>NodeAddrs = [nodeAddr], StakingAddrs = [stakingAddr],
                          RewardAddr = rewardAddr, StakingAmount = stakingAmount\<rparr>]
                  in consolidate_loop s (j + 1)
                       \<lparr>nodes = ns, nodeIndex = (nodeIndex c)(nodeAddr \<mapsto> length ns - 1)\<rparr>
                       (rewardIndex(rewardAddr \<mapsto> length ns - 1))
              | Some idx \<Rightarrow>
                  if idx < length (nodes c) then
                    let n = nodes c ! idx;
                        n' = n\<lparr>NodeAddrs := NodeAddrs n @ [nodeAddr],
                               StakingAddrs := StakingAddrs n @ [stakingAddr],
                               StakingAmount := StakingAmount n + stakingAmount\<rparr>
                    in consolidate_loop s (j + 1)
                         \<lparr>nodes = (nodes c)[idx := n'],
                          nodeIndex = (nodeIndex c)(nodeAddr \<mapsto> idx)\<rparr>
                         rewardIndex
                  else None)
        else None
      else Some c)"
  by pat_completeness auto
termination
  by (relation "measure (\<lambda>(s, j, c, r). length (CouncilNodeAddrs s) - j)") auto

declare consolidate_loop.simps [simp del]

definition GetConsolidatedStakingInfo :: "StakingInfo \<Rightarrow> ConsolidatedStakingInfo option" where
  "GetConsolidatedStakingInfo s =
     consolidate_loop s 0 \<lparr>nodes = [], nodeIndex = Map.empty\<rparr> Map.empty"

subsection \<open>Gini coefficient\<close>

text \<open>
  \<^verbatim>\<open>sort.Sort\<close> with \<^verbatim>\<open>float64Slice.Less\<close>, the comparison \<^verbatim>\<open>p[i] < p[j]\<close>. The
  standard library's algorithm is not part of the repository; it is modelled by
  insertion sort on \<open>Less\<close>. On a slice without NaN every sorting algorithm returns an
  ascending arrangement of the same elements, unique up to the order of \<open>-0\<close> and
  \<open>+0\<close>.
\<close>

fun insert_Less :: "float64 \<Rightarrow> float64 list \<Rightarrow> float64 list" where
  "insert_Less x [] = [x]"
| "insert_Less x (y # ys) = (if f64_lt x y then x # y # ys else y # insert_Less x ys)"

fun sort_Sort :: "float64 list \<Rightarrow> float64 list" where
  "sort_Sort [] = []"
| "sort_Sort (x # xs) = insert_Less x (sort_Sort xs)"

text \<open>
  The \<^verbatim>\<open>for i, x := range stakingAmount\<close> loop: \<open>i\<close> is the index of the head of the
  remaining slice.
\<close>

fun gini_loop :: "float64 list \<Rightarrow> nat \<Rightarrow> float64 \<Rightarrow> float64 \<Rightarrow> float64 \<times> float64" where
  "gini_loop [] i sumOfAbsoluteDifferences subSum = (sumOfAbsoluteDifferences, subSum)"
| "gini_loop (x # xs) i sumOfAbsoluteDifferences subSum =
     (let temp = f64_sub (f64_mul x (f64_of_nat i)) subSum
      in gini_loop xs (i + 1) (f64_add sumOfAbsoluteDifferences temp) (f64_add subSum x))"

definition CalcGiniCoefficient :: "float64 list \<Rightarrow> float64" where
  "CalcGiniCoefficient stakingAmount =
     (let sorted = sort_Sort stakingAmount;
          (sumOfAbsoluteDifferences, subSum) =
             gini_loop sorted 0 (f64_zero False) (f64_zero False);
          result = f64_div (f64_div sumOfAbsoluteDifferences subSum)
                     (f64_of_nat (length sorted))
      in f64_div (math_Round (f64_mul result f64_100)) f64_100)"

text \<open>The \<^verbatim>\<open>range c.nodes\<close> loop that collects the amounts at or above \<open>minStake\<close>.\<close>

fun amounts_loop :: "consolidatedNode list \<Rightarrow> uint64 \<Rightarrow> float64 list \<Rightarrow> float64 list" where
  "amounts_loop [] minStake amounts = amounts"
| "amounts_loop (node # ns) minStake amounts =
     (if minStake \<le> StakingAmount node
      then amounts_loop ns minStake (amounts @ [f64_of_uint64 (StakingAmount node)])
      else amounts_loop ns minStake amounts)"

definition CalcGiniCoefficientMinStake :: "ConsolidatedStakingInfo \<Rightarrow> uint64 \<Rightarrow> float64" where
  "CalcGiniCoefficientMinStake c minStake =
     (let amounts = amounts_loop (nodes c) minStake []
      in if length amounts = 0 then DefaultGiniCoefficient
         else CalcGiniCoefficient amounts)"


section \<open>Staking manager (reward/staking_manager.go)\<close>

subsection \<open>Collaborators\<close>

text \<open>
  The manager calls into packages that are not among the sources: \<^verbatim>\<open>params\<close> (the
  staking interval), the chain and its state, the governance helper, the address book
  contract, the staking-info database and the staking-info cache. Their answers are
  the fields of an environment \<open>env\<close>; what the manager changes (the singleton, the
  cache, the database) is a \<open>world\<close>, which also keeps a \<open>trace\<close> of every call made to
  the cache, the database, the chain and the governance helper, in order.
\<close>

type_synonym hash = "256 word"

datatype error =
    ErrStakingManagerNotSet
  | ErrChainHeadChanNotSet
  | ErrAddrNotInStakingInfo
  | ErrBlockNotFound uint64
  | ErrStakingInfoNotInDB uint64
  | ErrCollaborator nat

datatype event =
    CacheGet uint64
  | CacheAdd uint64
  | DBRead uint64
  | DBWrite StakingInfo
  | AddressBookRead uint64
  | GovMinimumStaking uint64

record env =
  IsStakingUpdateInterval :: "uint64 \<Rightarrow> bool"
  CalcStakingBlockNumber :: "uint64 \<Rightarrow> uint64"
  StakingUpdateInterval :: uint64
  KLAY :: nat
  GetBlockByNumber :: "uint64 \<Rightarrow> hash option"
  StateAt :: "hash \<Rightarrow> error + (address \<Rightarrow> nat)"
  GetUseGiniCoeff :: "uint64 \<Rightarrow> error + bool"
  GetMinimumStakingAtNumber :: "uint64 \<Rightarrow> error + uint64"
  readAddressBook ::
    "uint64 \<Rightarrow> error + (address list \<times> address list \<times> address list \<times> address \<times> address)"
  dbWriteError :: "StakingInfo \<Rightarrow> error option"
  cacheCapacity :: nat

record world =
  managerSet :: bool
  stakingInfoCache :: "(uint64 \<times> StakingInfo) list"
  stakingInfoDB :: "uint64 \<rightharpoonup> StakingInfo"
  trace :: "event list"

definition log_event :: "event \<Rightarrow> world \<Rightarrow> world" where
  "log_event e w = w\<lparr>trace := trace w @ [e]\<rparr>"

text \<open>
  \<^verbatim>\<open>newStakingInfo\<close>. \<open>GetBlockByNumber\<close> answers with the state root of the block,
  \<open>StateAt\<close> with the balances of that state, \<open>GetUseGiniCoeff\<close> is
  \<^verbatim>\<open>GetItemAtNumberByIntKey(blockNum, params.UseGiniCoeff)\<close>. \<^verbatim>\<open>big.Int.Div\<close> panics on
  a zero divisor: the result \<open>None\<close>.
\<close>

definition newStakingInfo ::
  "env \<Rightarrow> uint64 \<Rightarrow> address list \<Rightarrow> address list \<Rightarrow> address list \<Rightarrow> address \<Rightarrow> address \<Rightarrow>
   (error + StakingInfo) option" where
  "newStakingInfo e blockNum nodeAddrs stakingAddrs rewardAddrs kirAddr pocAddr =
     (case GetBlockByNumber e blockNum of
        None \<Rightarrow> Some (Inl (ErrBlockNotFound blockNum))
      | Some stateRoot \<Rightarrow>
          (case StateAt e stateRoot of
             Inl err \<Rightarrow> Some (Inl err)
           | Inr balance \<Rightarrow>
               if stakingAddrs \<noteq> [] \<and> KLAY e = 0 then None
               else
                 let stakingAmounts =
                       map (\<lambda>stakingAddr.
                              let tempStakingAmount = balance stakingAddr div KLAY e
                              in word_of_nat
                                   (if maxStakingLimit < tempStakingAmount then maxStakingLimit
                                    else tempStakingAmount))
                         stakingAddrs
                 in (case GetUseGiniCoeff e blockNum of
                       Inl err \<Rightarrow> Some (Inl err)
                     | Inr useGini \<Rightarrow>
                         Some (Inr \<lparr>BlockNum = blockNum, CouncilNodeAddrs = nodeAddrs,
                           CouncilStakingAddrs = stakingAddrs,
                           CouncilRewardAddrs = rewardAddrs, KIRAddr = kirAddr,
                           PoCAddr = pocAddr, UseGini = useGini,
                           Gini = DefaultGiniCoefficient,
                           CouncilStakingAmounts = stakingAmounts\<rparr>))))"

text \<open>
  Modelled from the spec: \<^verbatim>\<open>addressBookConnector.getStakingInfoFromAddressBook\<close> is
  not among the sources. Section 4.3 of the spec: read the registry contract for the
  ordered node, staking and reward address lists and the two auxiliary addresses
  (\<open>readAddressBook\<close>, which may fail), then resolve the block and its state, read and
  clamp the balances, query the "use Gini" flag and assemble the snapshot with the
  sentinel: the steps of \<^verbatim>\<open>newStakingInfo\<close> above.
\<close>

definition getStakingInfoFromAddressBook ::
  "env \<Rightarrow> world \<Rightarrow> uint64 \<Rightarrow> ((error + StakingInfo) \<times> world) option" where
  "getStakingInfoFromAddressBook e w blockNum =
     (let w1 = log_event (AddressBookRead blockNum) w
      in case readAddressBook e blockNum of
           Inl err \<Rightarrow> Some (Inl err, w1)
         | Inr (nodeAddrs, stakingAddrs, rewardAddrs, kirAddr, pocAddr) \<Rightarrow>
             (case newStakingInfo e blockNum nodeAddrs stakingAddrs rewardAddrs kirAddr pocAddr of
                None \<Rightarrow> None
              | Some r \<Rightarrow> Some (r, w1)))"

text \<open>
  Modelled from the spec: the database functions \<^verbatim>\<open>getStakingInfoFromDB\<close> and
  \<^verbatim>\<open>AddStakingInfoToDB\<close> are not among the sources. Section 6 of the spec: a keyed
  store with \<open>get(intervalBlock)\<close>, absent or the stored snapshot, and
  \<open>put(intervalBlock, snapshot)\<close>, which may fail; the serialised form round-trips
  without loss, so the store keeps the snapshot itself.
\<close>

definition getStakingInfoFromDB :: "world \<Rightarrow> uint64 \<Rightarrow> (error + StakingInfo) \<times> world" where
  "getStakingInfoFromDB w blockNum =
     ((case stakingInfoDB w blockNum of
         None \<Rightarrow> Inl (ErrStakingInfoNotInDB blockNum)
       | Some s \<Rightarrow> Inr s),
      log_event (DBRead blockNum) w)"

definition AddStakingInfoToDB :: "env \<Rightarrow> world \<Rightarrow> StakingInfo \<Rightarrow> error option \<times> world" where
  "AddStakingInfoToDB e w stakingInfo =
     (let w1 = log_event (DBWrite stakingInfo) w
      in case dbWriteError e stakingInfo of
           Some err \<Rightarrow> (Some err, w1)
         | None \<Rightarrow>
             (None, w1\<lparr>stakingInfoDB := (stakingInfoDB w1)(BlockNum stakingInfo \<mapsto> stakingInfo)\<rparr>))"

text \<open>
  Modelled from the spec: \<^verbatim>\<open>stakingInfoCache\<close> is not among the sources. Section 3 of
  the spec: bounded capacity, least-recently-used eviction, and an entry added again
  for the same key overwrites the old one. The list holds the most recently used
  entry first. The cache holds pointers: \<open>cache_mutate\<close> is the effect, on the cache,
  of an assignment through the pointer a lookup returned.
\<close>

definition cache_get :: "world \<Rightarrow> uint64 \<Rightarrow> StakingInfo option \<times> world" where
  "cache_get w blockNum =
     (let w1 = log_event (CacheGet blockNum) w
      in case map_of (stakingInfoCache w) blockNum of
           None \<Rightarrow> (None, w1)
         | Some s \<Rightarrow>
             (Some s,
              w1\<lparr>stakingInfoCache :=
                   (blockNum, s) # filter (\<lambda>kv. fst kv \<noteq> blockNum) (stakingInfoCache w)\<rparr>))"

definition cache_add :: "env \<Rightarrow> world \<Rightarrow> StakingInfo \<Rightarrow> world" where
  "cache_add e w s =
     (let w1 = log_event (CacheAdd (BlockNum s)) w
      in w1\<lparr>stakingInfoCache :=
             take (cacheCapacity e)
               ((BlockNum s, s) # filter (\<lambda>kv. fst kv \<noteq> BlockNum s) (stakingInfoCache w))\<rparr>)"

definition cache_mutate :: "world \<Rightarrow> uint64 \<Rightarrow> StakingInfo \<Rightarrow> world" where
  "cache_mutate w blockNum s =
     w\<lparr>stakingInfoCache :=
         map (\<lambda>kv. if fst kv = blockNum then (blockNum, s) else kv) (stakingInfoCache w)\<rparr>"

subsection \<open>The manager's functions\<close>

text \<open>
  Each function takes the world and returns its results with the new world; \<open>None\<close>
  is a run-time panic. A \<^verbatim>\<open>*StakingInfo\<close> result is an option, \<open>None\<close> for \<^verbatim>\<open>nil\<close>; an
  \<^verbatim>\<open>error\<close> result likewise. \<^verbatim>\<open>fillMissingGiniCoefficient\<close> assigns through its pointer
  argument: the model returns the snapshot as the call leaves it. Its test
  \<^verbatim>\<open>c == nil\<close> never holds, since \<^verbatim>\<open>GetConsolidatedStakingInfo\<close> returns the address of a
  fresh struct. Logging is left out.
\<close>

definition fillMissingGiniCoefficient ::
  "env \<Rightarrow> world \<Rightarrow> StakingInfo \<Rightarrow> uint64 \<Rightarrow> (error option \<times> StakingInfo \<times> world) option" where
  "fillMissingGiniCoefficient e w stakingInfo number =
     (if \<not> UseGini stakingInfo then Some (None, stakingInfo, w)
      else if f64_ge (Gini stakingInfo) (f64_zero False) then Some (None, stakingInfo, w)
      else
        let w1 = log_event (GovMinimumStaking number) w
        in case GetMinimumStakingAtNumber e number of
             Inl err \<Rightarrow> Some (Some err, stakingInfo, w1)
           | Inr minStaking \<Rightarrow>
               (case GetConsolidatedStakingInfo stakingInfo of
                  None \<Rightarrow> None
                | Some c \<Rightarrow>
                    Some (None,
                          stakingInfo\<lparr>Gini := CalcGiniCoefficientMinStake c minStaking\<rparr>,
                          w1)))"

definition updateStakingInfo ::
  "env \<Rightarrow> world \<Rightarrow> uint64 \<Rightarrow> ((StakingInfo option \<times> error option) \<times> world) option" where
  "updateStakingInfo e w blockNum =
     (if \<not> managerSet w then Some ((None, Some ErrStakingManagerNotSet), w)
      else
        case getStakingInfoFromAddressBook e w blockNum of
          None \<Rightarrow> None
        | Some (Inl err, w1) \<Rightarrow> Some ((None, Some err), w1)
        | Some (Inr stakingInfo, w1) \<Rightarrow>
            (case AddStakingInfoToDB e w1 stakingInfo of
               (Some err, w2) \<Rightarrow> Some ((Some stakingInfo, Some err), w2)
             | (None, w2) \<Rightarrow>
                 (case fillMissingGiniCoefficient e w2 stakingInfo blockNum of
                    None \<Rightarrow> None
                  | Some (err, stakingInfo', w3) \<Rightarrow>
                      Some ((Some stakingInfo', None), cache_add e w3 stakingInfo'))))"

definition GetStakingInfoOnStakingBlock ::
  "env \<Rightarrow> world \<Rightarrow> uint64 \<Rightarrow> (StakingInfo option \<times> world) option" where
  "GetStakingInfoOnStakingBlock e w stakingBlockNumber =
     (if \<not> managerSet w then Some (None, w)
      else if \<not> IsStakingUpdateInterval e stakingBlockNumber then Some (None, w)
      else
        case cache_get w stakingBlockNumber of
          (Some cachedStakingInfo, w1) \<Rightarrow>
            (case fillMissingGiniCoefficient e w1 cachedStakingInfo stakingBlockNumber of
               None \<Rightarrow> None
             | Some (err, cached', w2) \<Rightarrow>
                 Some (Some cached', cache_mutate w2 stakingBlockNumber cached'))
        | (None, w1) \<Rightarrow>
            (case getStakingInfoFromDB w1 stakingBlockNumber of
               (Inr storedStakingInfo, w2) \<Rightarrow>
                 (case fillMissingGiniCoefficient e w2 storedStakingInfo stakingBlockNumber of
                    None \<Rightarrow> None
                  | Some (err, stored', w3) \<Rightarrow> Some (Some stored', cache_add e w3 stored'))
             | (Inl err, w2) \<Rightarrow>
                 (case updateStakingInfo e w2 stakingBlockNumber of
                    None \<Rightarrow> None
                  | Some ((calcStakingInfo, err'), w3) \<Rightarrow> Some (calcStakingInfo, w3))))"

definition GetStakingInfo :: "env \<Rightarrow> world \<Rightarrow> uint64 \<Rightarrow> (StakingInfo option \<times> world) option" where
  "GetStakingInfo e w blockNum =
     GetStakingInfoOnStakingBlock e w (CalcStakingBlockNumber e blockNum)"

definition CheckStakingInfoStored :: "env \<Rightarrow> world \<Rightarrow> uint64 \<Rightarrow> (error option \<times> world) option" where
  "CheckStakingInfoStored e w blockNum =
     (if \<not> managerSet w then Some (Some ErrStakingManagerNotSet, w)
      else
        let stakingBlockNumber = CalcStakingBlockNumber e blockNum
        in case getStakingInfoFromDB w stakingBlockNumber of
             (Inr s, w1) \<Rightarrow> Some (None, w1)
           | (Inl err, w1) \<Rightarrow>
               (case updateStakingInfo e w1 stakingBlockNumber of
                  None \<Rightarrow> None
                | Some ((s, err'), w2) \<Rightarrow> Some (err', w2)))"

text \<open>
  The function \<^verbatim>\<open>NewStakingManager\<close> registers with
  \<^verbatim>\<open>blockchain.RegisterMigrationPrerequisites\<close>.
\<close>

definition MigrationPrerequisite :: "env \<Rightarrow> world \<Rightarrow> uint64 \<Rightarrow> (error option \<times> world) option" where
  "MigrationPrerequisite e w blockNum =
     (case CheckStakingInfoStored e w blockNum of
        None \<Rightarrow> None
      | Some (Some err, w1) \<Rightarrow> Some (Some err, w1)
      | Some (None, w1) \<Rightarrow> CheckStakingInfoStored e w1 (blockNum + StakingUpdateInterval e))"


section \<open>Consolidation: the grouping and its totals\<close>

text \<open>
  The validator records of a snapshot, one tuple (node address, staking address,
  reward address, amount) per index, and the consolidation as the spec words it: a
  record whose reward address has not been seen starts a new entry at the end; a
  record whose reward address has been seen extends the entry of that address.
\<close>

type_synonym crecord = "address \<times> address \<times> address \<times> uint64"

definition records_of :: "StakingInfo \<Rightarrow> crecord list" where
  "records_of s = zip (CouncilNodeAddrs s) (zip (CouncilStakingAddrs s)
      (zip (CouncilRewardAddrs s) (CouncilStakingAmounts s)))"

fun consolidate_step :: "consolidatedNode list \<Rightarrow> crecord \<Rightarrow> consolidatedNode list" where
  "consolidate_step ns (nodeAddr, stakingAddr, rewardAddr, amount) =
     (if rewardAddr \<in> RewardAddr ` set ns
      then map (\<lambda>n. if RewardAddr n = rewardAddr
                    then n\<lparr>NodeAddrs := NodeAddrs n @ [nodeAddr],
                           StakingAddrs := StakingAddrs n @ [stakingAddr],
                           StakingAmount := StakingAmount n + amount\<rparr>
                    else n) ns
      else ns @ [\<lparr>NodeAddrs = [nodeAddr], StakingAddrs = [stakingAddr],
                  RewardAddr = rewardAddr, StakingAmount = amount\<rparr>])"

declare consolidate_step.simps [simp del]

definition consolidate_spec :: "crecord list \<Rightarrow> consolidatedNode list" where
  "consolidate_spec recs = foldl consolidate_step [] recs"

definition reward_inv :: "consolidatedNode list \<Rightarrow> (address \<rightharpoonup> nat) \<Rightarrow> bool" where
  "reward_inv ns ri \<longleftrightarrow>
     distinct (map RewardAddr ns) \<and>
     (\<forall>r. case ri r of None \<Rightarrow> r \<notin> RewardAddr ` set ns
                     | Some idx \<Rightarrow> idx < length ns \<and> RewardAddr (ns ! idx) = r)"

lemma reward_inv_empty: "reward_inv [] Map.empty"
  by (simp add: reward_inv_def)

lemma map_upd_distinct:
  assumes "distinct (map RewardAddr ns)" "idx < length ns" "RewardAddr (ns ! idx) = r"
    and "\<And>n. RewardAddr (f n) = RewardAddr n"
  shows "map (\<lambda>n. if RewardAddr n = r then f n else n) ns = ns[idx := f (ns ! idx)]"
proof (rule nth_equalityI)
  show "length (map (\<lambda>n. if RewardAddr n = r then f n else n) ns) = length (ns[idx := f (ns ! idx)])"
    by simp
next
  fix i assume "i < length (map (\<lambda>n. if RewardAddr n = r then f n else n) ns)"
  then have i: "i < length ns" by simp
  show "map (\<lambda>n. if RewardAddr n = r then f n else n) ns ! i = ns[idx := f (ns ! idx)] ! i"
  proof (cases "i = idx")
    case True
    with assms i show ?thesis by simp
  next
    case False
    have "RewardAddr (ns ! i) \<noteq> r"
    proof
      assume "RewardAddr (ns ! i) = r"
      then have "map RewardAddr ns ! i = map RewardAddr ns ! idx"
        using assms i by simp
      then have "i = idx"
        using assms(1,2) i nth_eq_iff_index_eq[of "map RewardAddr ns" i idx] by simp
      with False show False by simp
    qed
    with False i show ?thesis by simp
  qed
qed

lemma consolidate_loop_spec:
  "length (CouncilStakingAddrs s) = length (CouncilNodeAddrs s) \<Longrightarrow>
   length (CouncilRewardAddrs s) = length (CouncilNodeAddrs s) \<Longrightarrow>
   length (CouncilStakingAmounts s) = length (CouncilNodeAddrs s) \<Longrightarrow>
   reward_inv (nodes c) ri \<Longrightarrow>
    \<exists>c'. consolidate_loop s j c ri = Some c' \<and>
         nodes c' = foldl consolidate_step (nodes c) (drop j (records_of s))"
proof (induction s j c ri rule: consolidate_loop.induct)
  case (1 s j c ri)
  note assms = "1.prems"(1,2,3)
  note rinv = "1.prems"(4)
  show ?case
  proof (cases "j < length (CouncilNodeAddrs s)")
    case False
    then show ?thesis
      by (subst consolidate_loop.simps) (simp add: records_of_def)
  next
    case True
    define nodeAddr where "nodeAddr = CouncilNodeAddrs s ! j"
    define stakingAddr where "stakingAddr = CouncilStakingAddrs s ! j"
    define rewardAddr where "rewardAddr = CouncilRewardAddrs s ! j"
    define stakingAmount where "stakingAmount = CouncilStakingAmounts s ! j"
    have len: "j < length (CouncilStakingAddrs s)" "j < length (CouncilRewardAddrs s)"
      "j < length (CouncilStakingAmounts s)"
      using True assms by simp_all
    have lenc: "j < length (CouncilStakingAddrs s) \<and> j < length (CouncilRewardAddrs s) \<and>
           j < length (CouncilStakingAmounts s)"
      using len by simp
    have jrec: "j < length (records_of s)"
      using True assms by (simp add: records_of_def)
    have rec: "records_of s ! j = (nodeAddr, stakingAddr, rewardAddr, stakingAmount)"
      using True len by (simp add: records_of_def nodeAddr_def stakingAddr_def rewardAddr_def stakingAmount_def)
    have drop: "drop j (records_of s) = (nodeAddr, stakingAddr, rewardAddr, stakingAmount) # drop (Suc j) (records_of s)"
      using jrec rec by (metis Cons_nth_drop_Suc)
    from rinv have dist: "distinct (map RewardAddr (nodes c))"
      and inv: "\<And>r. case ri r of None \<Rightarrow> r \<notin> RewardAddr ` set (nodes c)
                     | Some idx \<Rightarrow> idx < length (nodes c) \<and> RewardAddr (nodes c ! idx) = r"
      by (simp_all add: reward_inv_def)
    show ?thesis
    proof (cases "ri rewardAddr")
      case None
      define ns where "ns = nodes c @ [\<lparr>NodeAddrs = [nodeAddr], StakingAddrs = [stakingAddr],
                          RewardAddr = rewardAddr, StakingAmount = stakingAmount\<rparr>]"
      have notin: "rewardAddr \<notin> RewardAddr ` set (nodes c)"
        using inv[of rewardAddr] None by simp
      have inv': "reward_inv ns (ri(rewardAddr \<mapsto> length ns - 1))"
        unfolding reward_inv_def
      proof (intro conjI allI)
        show "distinct (map RewardAddr ns)"
          using dist notin by (simp add: ns_def)
      next
        fix r
        show "case (ri(rewardAddr \<mapsto> length ns - 1)) r of None \<Rightarrow> r \<notin> RewardAddr ` set ns
              | Some idx \<Rightarrow> idx < length ns \<and> RewardAddr (ns ! idx) = r"
          using inv[of r] by (auto simp: ns_def nth_append split: option.splits)
      qed
      have step: "consolidate_step (nodes c) (nodeAddr, stakingAddr, rewardAddr, stakingAmount) = ns"
        using notin by (simp add: ns_def consolidate_step.simps)
      have lns: "length ns - Suc 0 = length (nodes c)"
        by (simp add: ns_def)
      have unf: "consolidate_loop s j c ri =
          consolidate_loop s (j + 1) \<lparr>nodes = ns, nodeIndex = (nodeIndex c)(nodeAddr \<mapsto> length ns - 1)\<rparr>
                 (ri(rewardAddr \<mapsto> length ns - 1))"
        using True len None lns
        by (subst consolidate_loop.simps)
           (simp add: Let_def flip: nodeAddr_def stakingAddr_def rewardAddr_def stakingAmount_def ns_def del: fun_upd_apply)
      have fl: "foldl consolidate_step (nodes c) (drop j (records_of s)) =
          foldl consolidate_step ns (drop (j + 1) (records_of s))"
        by (simp add: drop step)
      have "\<exists>c'. consolidate_loop s (j + 1) \<lparr>nodes = ns, nodeIndex = (nodeIndex c)(nodeAddr \<mapsto> length ns - 1)\<rparr>
                 (ri(rewardAddr \<mapsto> length ns - 1)) = Some c' \<and>
               nodes c' = foldl consolidate_step (nodes \<lparr>nodes = ns, nodeIndex = (nodeIndex c)(nodeAddr \<mapsto> length ns - 1)\<rparr>)
                 (drop (j + 1) (records_of s))"
        using "1.IH"(1)[OF True lenc nodeAddr_def stakingAddr_def rewardAddr_def stakingAmount_def None ns_def assms]
          inv' by (simp del: fun_upd_apply)
      then show ?thesis
        unfolding unf fl by simp
    next
      case (Some idx)
      have idx: "idx < length (nodes c)" "RewardAddr (nodes c ! idx) = rewardAddr"
        using inv[of rewardAddr] Some by simp_all
      define n where "n = nodes c ! idx"
      define n' where "n' = n\<lparr>NodeAddrs := NodeAddrs n @ [nodeAddr],
                               StakingAddrs := StakingAddrs n @ [stakingAddr],
                               StakingAmount := StakingAmount n + stakingAmount\<rparr>"
      have rn': "RewardAddr n' = rewardAddr"
        using idx by (simp add: n'_def n_def)
      have mem: "rewardAddr \<in> RewardAddr ` set (nodes c)"
        using idx by (metis imageI nth_mem)
      have step: "consolidate_step (nodes c) (nodeAddr, stakingAddr, rewardAddr, stakingAmount) = (nodes c)[idx := n']"
        using mem map_upd_distinct[OF dist idx, of "\<lambda>n. n\<lparr>NodeAddrs := NodeAddrs n @ [nodeAddr],
                               StakingAddrs := StakingAddrs n @ [stakingAddr],
                               StakingAmount := StakingAmount n + stakingAmount\<rparr>"]
        by (simp add: n'_def n_def consolidate_step.simps)
      have unf: "consolidate_loop s j c ri =
          consolidate_loop s (j + 1) \<lparr>nodes = (nodes c)[idx := n'], nodeIndex = (nodeIndex c)(nodeAddr \<mapsto> idx)\<rparr> ri"
        using True len Some idx(1)
        by (subst consolidate_loop.simps)
           (simp add: Let_def flip: nodeAddr_def stakingAddr_def rewardAddr_def stakingAmount_def n_def n'_def del: fun_upd_apply)
      have fl: "foldl consolidate_step (nodes c) (drop j (records_of s)) =
          foldl consolidate_step ((nodes c)[idx := n']) (drop (j + 1) (records_of s))"
        by (simp add: drop step)
      have inv': "reward_inv ((nodes c)[idx := n']) ri"
        unfolding reward_inv_def
      proof (intro conjI allI)
        have "map RewardAddr ((nodes c)[idx := n']) = map RewardAddr (nodes c)"
          using idx rn' by (simp add: map_update list_update_same_conv)
        then show "distinct (map RewardAddr ((nodes c)[idx := n']))"
          using dist by simp
        fix r
        have "map RewardAddr ((nodes c)[idx := n']) = map RewardAddr (nodes c)" by fact
        then have eq: "RewardAddr ` set ((nodes c)[idx := n']) = RewardAddr ` set (nodes c)"
          by (metis set_map)
        show "case ri r of None \<Rightarrow> r \<notin> RewardAddr ` set ((nodes c)[idx := n'])
              | Some i \<Rightarrow> i < length ((nodes c)[idx := n']) \<and> RewardAddr ((nodes c)[idx := n'] ! i) = r"
          using inv[of r] idx rn' eq by (auto simp: nth_list_update split: option.splits)
      qed
      have "\<exists>c'. consolidate_loop s (j + 1) \<lparr>nodes = (nodes c)[idx := n'], nodeIndex = (nodeIndex c)(nodeAddr \<mapsto> idx)\<rparr> ri = Some c' \<and>
               nodes c' = foldl consolidate_step (nodes \<lparr>nodes = (nodes c)[idx := n'], nodeIndex = (nodeIndex c)(nodeAddr \<mapsto> idx)\<rparr>)
                 (drop (j + 1) (records_of s))"
        using "1.IH"(2)[OF True lenc nodeAddr_def stakingAddr_def rewardAddr_def stakingAmount_def Some idx(1) n_def n'_def assms]
          inv' by (simp del: fun_upd_apply)
      then show ?thesis
        unfolding unf fl by simp
    qed
  qed
qed


definition first_seen :: "'a list \<Rightarrow> 'a list" where
  "first_seen xs = rev (remdups (rev xs))"

definition rec_reward :: "crecord \<Rightarrow> address" where
  "rec_reward r = fst (snd (snd r))"

definition entry_of :: "crecord list \<Rightarrow> address \<Rightarrow> consolidatedNode" where
  "entry_of recs r =
     \<lparr>NodeAddrs = map fst (filter (\<lambda>x. rec_reward x = r) recs),
      StakingAddrs = map (\<lambda>x. fst (snd x)) (filter (\<lambda>x. rec_reward x = r) recs),
      RewardAddr = r,
      StakingAmount = sum_list (map (\<lambda>x. snd (snd (snd x))) (filter (\<lambda>x. rec_reward x = r) recs))\<rparr>"

lemma first_seen_snoc:
  "first_seen (xs @ [x]) = (if x \<in> set xs then first_seen xs else first_seen xs @ [x])"
  by (simp add: first_seen_def)

lemma set_first_seen [simp]: "set (first_seen xs) = set xs"
  by (simp add: first_seen_def)

lemma distinct_first_seen [simp]: "distinct (first_seen xs)"
  by (simp add: first_seen_def)

lemma RewardAddr_entry_of [simp]: "RewardAddr (entry_of recs r) = r"
  by (simp add: entry_of_def)

lemma entry_of_snoc_other:
  "rec_reward x \<noteq> r \<Longrightarrow> entry_of (recs @ [x]) r = entry_of recs r"
  by (simp add: entry_of_def)

lemma entry_of_snoc_same:
  "entry_of (recs @ [(n, s, r, a)]) r =
     (entry_of recs r)\<lparr>NodeAddrs := NodeAddrs (entry_of recs r) @ [n],
        StakingAddrs := StakingAddrs (entry_of recs r) @ [s],
        StakingAmount := StakingAmount (entry_of recs r) + a\<rparr>"
  by (simp add: entry_of_def rec_reward_def)

lemma entry_of_fresh:
  "r \<notin> rec_reward ` set recs \<Longrightarrow>
   entry_of (recs @ [(n, s, r, a)]) r =
     \<lparr>NodeAddrs = [n], StakingAddrs = [s], RewardAddr = r, StakingAmount = a\<rparr>"
proof -
  assume "r \<notin> rec_reward ` set recs"
  then have "filter (\<lambda>x. rec_reward x = r) recs = []"
    by (auto simp: filter_empty_conv)
  then show ?thesis
    by (simp add: entry_of_def rec_reward_def)
qed

lemma consolidate_spec_closed:
  "consolidate_spec recs = map (entry_of recs) (first_seen (map rec_reward recs))"
proof (induction recs rule: rev_induct)
  case Nil
  show ?case by (simp add: consolidate_spec_def first_seen_def)
next
  case (snoc x recs)
  obtain n s r a where x: "x = (n, s, r, a)" by (cases x) auto
  have rx: "rec_reward x = r" by (simp add: x rec_reward_def)
  let ?U = "first_seen (map rec_reward recs)"
  have spec: "consolidate_spec (recs @ [x]) = consolidate_step (map (entry_of recs) ?U) x"
    using snoc by (simp add: consolidate_spec_def)
  have img: "RewardAddr ` set (map (entry_of recs) ?U) = rec_reward ` set recs"
    by (simp add: image_image)
  have other: "entry_of (recs @ [x]) u = entry_of recs u" if "u \<noteq> r" for u
    using that entry_of_snoc_other[of x u recs] rx by simp
  show ?case
  proof (cases "r \<in> rec_reward ` set recs")
    case True
    have "consolidate_step (map (entry_of recs) ?U) x =
        map (\<lambda>u. if u = r then entry_of (recs @ [x]) u else entry_of recs u) ?U"
      unfolding x consolidate_step.simps img using True
      by (simp add: entry_of_snoc_same o_def cong: if_cong)
    also have "\<dots> = map (entry_of (recs @ [x])) ?U"
      by (rule map_cong) (simp_all add: other)
    finally show ?thesis
      using True by (simp add: spec first_seen_snoc rx)
  next
    case False
    have st: "consolidate_step (map (entry_of recs) ?U) x =
        map (entry_of recs) ?U @ [entry_of (recs @ [x]) r]"
      unfolding x consolidate_step.simps img using False
      by (simp add: entry_of_fresh)
    have "map (entry_of recs) ?U = map (entry_of (recs @ [x])) ?U"
    proof (rule map_cong)
      fix u assume "u \<in> set ?U"
      then have "u \<noteq> r" using False by auto
      then show "entry_of recs u = entry_of (recs @ [x]) u" by (simp add: other)
    qed simp
    then have "consolidate_step (map (entry_of recs) ?U) x =
        map (entry_of (recs @ [x])) ?U @ [entry_of (recs @ [x]) r]"
      using st by simp
    then show ?thesis
      using False by (simp add: spec first_seen_snoc rx)
  qed
qed

lemma sum_list_map_add_one:
  fixes f :: "'a \<Rightarrow> 'b::comm_monoid_add"
  shows "distinct U \<Longrightarrow> r \<in> set U \<Longrightarrow>
    sum_list (map (\<lambda>u. if u = r then f u + a else f u) U) = sum_list (map f U) + a"
proof (induction U)
  case Nil
  then show ?case by simp
next
  case (Cons u U)
  show ?case
  proof (cases "u = r")
    case True
    with Cons.prems have "r \<notin> set U" by simp
    then have "map (\<lambda>u. if u = r then f u + a else f u) U = map f U"
      by (intro map_cong) auto
    with True show ?thesis by (simp add: ac_simps del: map_eq_conv)
  next
    case False
    with Cons show ?thesis by (simp add: ac_simps)
  qed
qed

lemma consolidate_spec_totals:
  "sum_list (map StakingAmount (consolidate_spec recs)) = sum_list (map (\<lambda>x. snd (snd (snd x))) recs) \<and>
   sum_list (map (\<lambda>n. length (NodeAddrs n)) (consolidate_spec recs)) = length recs"
proof (induction recs rule: rev_induct)
  case Nil
  show ?case by (simp add: consolidate_spec_def)
next
  case (snoc x recs)
  obtain n s r a where x: "x = (n, s, r, a)" by (cases x) auto
  have rx: "rec_reward x = r" by (simp add: x rec_reward_def)
  have ax: "snd (snd (snd x)) = a" by (simp add: x)
  let ?U = "first_seen (map rec_reward recs)"
  let ?A = "\<lambda>u. StakingAmount (entry_of recs u)"
  let ?L = "\<lambda>u. length (NodeAddrs (entry_of recs u))"
  let ?A' = "\<lambda>u. StakingAmount (entry_of (recs @ [x]) u)"
  let ?L' = "\<lambda>u. length (NodeAddrs (entry_of (recs @ [x]) u))"
  have IH1: "sum_list (map ?A ?U) = sum_list (map (\<lambda>x. snd (snd (snd x))) recs)"
    and IH2: "sum_list (map ?L ?U) = length recs"
    using snoc by (simp_all add: consolidate_spec_closed o_def)
  have other: "entry_of (recs @ [x]) u = entry_of recs u" if "u \<noteq> r" for u
    using that entry_of_snoc_other[of x u recs] rx by simp
  have same: "?A' r = ?A r + a" "?L' r = ?L r + 1"
    by (simp_all add: x entry_of_snoc_same)
  have a1: "?A' = (\<lambda>u. if u = r then ?A u + a else ?A u)"
    using same other by auto
  have a2: "?L' = (\<lambda>u. if u = r then ?L u + 1 else ?L u)"
    using same other by auto
  show ?case
  proof (cases "r \<in> rec_reward ` set recs")
    case True
    have mem: "r \<in> set ?U" using True by simp
    have U: "first_seen (map rec_reward recs @ [rec_reward x]) = ?U"
      using True by (simp add: first_seen_snoc rx)
    have "sum_list (map ?A' ?U) = sum_list (map ?A ?U) + a"
      unfolding a1 by (rule sum_list_map_add_one[OF distinct_first_seen mem])
    moreover have "sum_list (map ?L' ?U) = sum_list (map ?L ?U) + 1"
      unfolding a2 by (rule sum_list_map_add_one[OF distinct_first_seen mem])
    ultimately show ?thesis
      using IH1 IH2 by (simp add: consolidate_spec_closed U o_def ax)
  next
    case False
    have U: "first_seen (map rec_reward recs @ [rec_reward x]) = ?U @ [r]"
      using False by (simp add: first_seen_snoc rx)
    have ne: "u \<noteq> r" if "u \<in> set ?U" for u
      using that False by auto
    have m1: "map ?A' ?U = map ?A ?U"
      by (rule map_cong) (simp_all add: other ne)
    have m2: "map ?L' ?U = map ?L ?U"
      by (rule map_cong) (simp_all add: other ne)
    have fresh: "?A' r = a" "?L' r = 1"
      using entry_of_fresh[OF False, of n s a] by (simp_all add: x)
    show ?thesis
      using IH1 IH2 by (simp add: consolidate_spec_closed U o_def ax m1 m2 fresh)
  qed
qed

lemma consolidate_spec_aligned:
  "n \<in> set (consolidate_spec recs) \<Longrightarrow> length (NodeAddrs n) = length (StakingAddrs n)"
  by (auto simp: consolidate_spec_closed entry_of_def)


lemma records_of_reward:
  assumes "length (CouncilStakingAddrs s) = length (CouncilNodeAddrs s)"
    and "length (CouncilRewardAddrs s) = length (CouncilNodeAddrs s)"
    and "length (CouncilStakingAmounts s) = length (CouncilNodeAddrs s)"
  shows "map rec_reward (records_of s) = CouncilRewardAddrs s"
    and "map (\<lambda>x. snd (snd (snd x))) (records_of s) = CouncilStakingAmounts s"
    and "length (records_of s) = length (CouncilNodeAddrs s)"
  using assms
  by (auto simp: records_of_def rec_reward_def intro!: nth_equalityI)

lemma GetConsolidatedStakingInfo_spec:
  assumes "length (CouncilStakingAddrs s) = length (CouncilNodeAddrs s)"
    and "length (CouncilRewardAddrs s) = length (CouncilNodeAddrs s)"
    and "length (CouncilStakingAmounts s) = length (CouncilNodeAddrs s)"
  shows "\<exists>c. GetConsolidatedStakingInfo s = Some c \<and> nodes c = consolidate_spec (records_of s)"
  using consolidate_loop_spec[OF assms, of "\<lparr>nodes = [], nodeIndex = Map.empty\<rparr>" Map.empty 0]
  by (simp add: GetConsolidatedStakingInfo_def consolidate_spec_def reward_inv_empty)

text \<open>
  Claim C4. For a snapshot whose four sequences have one length,
  \<^verbatim>\<open>GetConsolidatedStakingInfo\<close> returns, and its \<open>nodes\<close> are what the record-by-record
  description \<open>consolidate_spec\<close> builds from the records in index order: a record with
  an unseen reward address appends a new entry holding that record's node address,
  staking address and amount; a record with a seen reward address appends its two
  addresses to the entry of that reward address and adds its amount. The reward
  addresses of the entries are those of the snapshot in order of first appearance,
  and the entry of a reward address lists, in index order, the node and staking
  addresses registered with it and holds the sum of their amounts.
\<close>

theorem GetConsolidatedStakingInfo_groups:
  assumes "length (CouncilStakingAddrs s) = length (CouncilNodeAddrs s)"
    and "length (CouncilRewardAddrs s) = length (CouncilNodeAddrs s)"
    and "length (CouncilStakingAmounts s) = length (CouncilNodeAddrs s)"
  shows "\<exists>c. GetConsolidatedStakingInfo s = Some c \<and>
           nodes c = consolidate_spec (records_of s) \<and>
           map RewardAddr (nodes c) = first_seen (CouncilRewardAddrs s) \<and>
           nodes c = map (entry_of (records_of s)) (first_seen (CouncilRewardAddrs s))"
proof -
  obtain c where c: "GetConsolidatedStakingInfo s = Some c"
    "nodes c = consolidate_spec (records_of s)"
    using GetConsolidatedStakingInfo_spec[OF assms] by blast
  have closed: "nodes c = map (entry_of (records_of s)) (first_seen (CouncilRewardAddrs s))"
    using c(2) by (simp add: consolidate_spec_closed records_of_reward(1)[OF assms])
  have "map RewardAddr (nodes c) = first_seen (CouncilRewardAddrs s)"
    unfolding closed by (simp add: o_def)
  with c closed show ?thesis by blast
qed

definition example_info :: StakingInfo where
  "example_info =
     \<lparr>BlockNum = 0, CouncilNodeAddrs = [1, 2, 3], CouncilStakingAddrs = [11, 12, 13],
      CouncilRewardAddrs = [21, 21, 23], KIRAddr = 0, PoCAddr = 0, UseGini = True,
      Gini = DefaultGiniCoefficient, CouncilStakingAmounts = [5, 7, 3]\<rparr>"

theorem GetConsolidatedStakingInfo_groups_witness:
  "\<exists>c. GetConsolidatedStakingInfo example_info = Some c \<and>
       nodes c =
         [\<lparr>NodeAddrs = [1, 2], StakingAddrs = [11, 12], RewardAddr = 21, StakingAmount = 12\<rparr>,
          \<lparr>NodeAddrs = [3], StakingAddrs = [13], RewardAddr = 23, StakingAmount = 3\<rparr>]"
proof -
  have "consolidate_spec (records_of example_info) =
         [\<lparr>NodeAddrs = [1, 2], StakingAddrs = [11, 12], RewardAddr = 21, StakingAmount = 12\<rparr>,
          \<lparr>NodeAddrs = [3], StakingAddrs = [13], RewardAddr = 23, StakingAmount = 3\<rparr>]"
    by (simp add: example_info_def records_of_def consolidate_spec_def consolidate_step.simps)
  then show ?thesis
    using GetConsolidatedStakingInfo_groups[of example_info]
    by (auto simp: example_info_def)
qed

text \<open>
  Claim C10. For a snapshot whose four sequences have one length, the staking amounts
  of the consolidated entries add up (in \<^verbatim>\<open>uint64\<close>, so modulo \<open>2^64\<close>) to the sum of the
  snapshot's amounts, every entry has as many node addresses as staking addresses, and
  the entries hold as many node addresses in total as the snapshot has records.
\<close>

theorem GetConsolidatedStakingInfo_totals:
  assumes "length (CouncilStakingAddrs s) = length (CouncilNodeAddrs s)"
    and "length (CouncilRewardAddrs s) = length (CouncilNodeAddrs s)"
    and "length (CouncilStakingAmounts s) = length (CouncilNodeAddrs s)"
  shows "\<exists>c. GetConsolidatedStakingInfo s = Some c \<and>
           sum_list (map StakingAmount (nodes c)) = sum_list (CouncilStakingAmounts s) \<and>
           (\<forall>n \<in> set (nodes c). length (NodeAddrs n) = length (StakingAddrs n)) \<and>
           sum_list (map (\<lambda>n. length (NodeAddrs n)) (nodes c)) = length (CouncilNodeAddrs s)"
proof -
  obtain c where c: "GetConsolidatedStakingInfo s = Some c"
    "nodes c = consolidate_spec (records_of s)"
    using GetConsolidatedStakingInfo_spec[OF assms] by blast
  show ?thesis
    using c consolidate_spec_totals[of "records_of s"] consolidate_spec_aligned[of _ "records_of s"]
    by (simp add: records_of_reward[OF assms])
qed

definition wrap_info :: StakingInfo where
  "wrap_info =
     \<lparr>BlockNum = 0, CouncilNodeAddrs = [1, 2, 3], CouncilStakingAddrs = [11, 12, 13],
      CouncilRewardAddrs = [21, 23, 21], KIRAddr = 0, PoCAddr = 0, UseGini = True,
      Gini = DefaultGiniCoefficient,
      CouncilStakingAmounts = [18446744073709551615, 7, 3]\<rparr>"

theorem GetConsolidatedStakingInfo_totals_witness:
  "\<exists>c. GetConsolidatedStakingInfo wrap_info = Some c \<and>
       map StakingAmount (nodes c) = [2, 7] \<and>
       sum_list (map StakingAmount (nodes c)) = 9 \<and>
       sum_list (CouncilStakingAmounts wrap_info) = 9 \<and>
       map (\<lambda>n. length (NodeAddrs n)) (nodes c) = [2, 1] \<and>
       map (\<lambda>n. length (StakingAddrs n)) (nodes c) = [2, 1]"
proof -
  have spec: "consolidate_spec (records_of wrap_info) =
         [\<lparr>NodeAddrs = [1, 3], StakingAddrs = [11, 13], RewardAddr = 21, StakingAmount = 2\<rparr>,
          \<lparr>NodeAddrs = [2], StakingAddrs = [12], RewardAddr = 23, StakingAmount = 7\<rparr>]"
    by (simp add: wrap_info_def records_of_def consolidate_spec_def consolidate_step.simps)
  obtain c where c: "GetConsolidatedStakingInfo wrap_info = Some c"
    "sum_list (map StakingAmount (nodes c)) = sum_list (CouncilStakingAmounts wrap_info)"
    using GetConsolidatedStakingInfo_totals[of wrap_info] by (auto simp: wrap_info_def)
  obtain c' where c': "GetConsolidatedStakingInfo wrap_info = Some c'"
    "nodes c' = consolidate_spec (records_of wrap_info)"
    using GetConsolidatedStakingInfo_spec[of wrap_info] by (auto simp: wrap_info_def)
  have "c' = c" using c c' by simp
  then have "nodes c = consolidate_spec (records_of wrap_info)" using c' by simp
  then show ?thesis
    using c spec by (simp add: wrap_info_def)
qed

text \<open>
  Claim C3. \<^verbatim>\<open>CalcGiniCoefficientMinStake\<close> looks only at the consolidated nodes whose
  amount is at least \<open>minStake\<close>. When there is none the result is the sentinel,
  the float \<open>-1\<close> with bit pattern \<^verbatim>\<open>0xBFF0000000000000\<close>, and no error; otherwise it is
  \<^verbatim>\<open>CalcGiniCoefficient\<close> of exactly those amounts, converted to \<^verbatim>\<open>float64\<close>, in the
  order of the nodes. With \<open>minStake = 0\<close> every node passes.
\<close>

lemma amounts_loop_filter:
  "amounts_loop ns minStake amounts =
     amounts @ map (\<lambda>n. f64_of_uint64 (StakingAmount n))
                 (filter (\<lambda>n. minStake \<le> StakingAmount n) ns)"
  by (induction ns arbitrary: amounts) auto

lemma bit_length_numeral:
  "bit_length (numeral k) = Suc (bit_length (numeral k div 2))"
  by (subst bit_length.simps) simp

lemma bit_length_small: "bit_length 0 = 0" "bit_length 1 = 1" "bit_length (Suc 0) = 1"
  by (simp_all add: bit_length.simps)

lemma fin_eval:
  "fin s 0 k = Fin s 0 1"
  "fin s 1 k = Fin s 1 (2 ^ k)"
  "fin s (Suc 0) k = Fin s 1 (2 ^ k)"
  "fin s (numeral n) k =
     (if k = 0 \<or> odd (numeral n :: nat) then Fin s (numeral n) (2 ^ k)
      else fin s (numeral n div 2) (k - 1))"
  by (simp_all add: fin.simps[of s 0] fin.simps[of s 1] fin.simps[of s "Suc 0"]
      fin.simps[of s "numeral n"])

lemmas f64_eval =
  bit_length_numeral bit_length_small
  f64_decode_def decode_fields_def fin_eval f64_is_nan_def signed_def valof_def
  f64_make_def f64_zero_def f64_inf_def f64_nan_def log_adjust_def floor_log2_def
  rne_pick_def rne_div_def round_mant_def pack_def round_at_def f64_round_def round_sum_def
  f64_add_def f64_sub_def f64_mul_def f64_div_def f64_lt_def f64_ge_def f64_le_def
  f64_of_nat_def f64_of_uint64_def math_Round_def f64_100_def

lemma DefaultGiniCoefficient_bits: "DefaultGiniCoefficient = 0xBFF0000000000000"
  by (simp add: DefaultGiniCoefficient_def f64_eval)

lemma valof_DefaultGiniCoefficient: "valof DefaultGiniCoefficient = - 1"
  by (simp add: DefaultGiniCoefficient_bits valof_def f64_eval)

theorem CalcGiniCoefficientMinStake_floor:
  "CalcGiniCoefficientMinStake c minStake =
     (if filter (\<lambda>n. minStake \<le> StakingAmount n) (nodes c) = [] then DefaultGiniCoefficient
      else CalcGiniCoefficient
             (map (\<lambda>n. f64_of_uint64 (StakingAmount n))
                (filter (\<lambda>n. minStake \<le> StakingAmount n) (nodes c)))) \<and>
   DefaultGiniCoefficient = 0xBFF0000000000000 \<and>
   valof DefaultGiniCoefficient = - 1 \<and>
   filter (\<lambda>n. 0 \<le> StakingAmount n) (nodes c) = nodes c"
  by (simp add: CalcGiniCoefficientMinStake_def amounts_loop_filter
      DefaultGiniCoefficient_bits [symmetric] valof_DefaultGiniCoefficient)

text \<open>
  Claim C5. With an \<^verbatim>\<open>rlp\<close> codec that reads back every \<^verbatim>\<open>stakingInfoRLP\<close> it wrote,
  \<^verbatim>\<open>EncodeRLP\<close> followed by \<^verbatim>\<open>DecodeRLP\<close> (into any receiver \<open>s0\<close>) yields the original
  snapshot, all nine fields. The Gini coefficient travels as \<^verbatim>\<open>math.Float64bits\<close> of
  the field, its 64-bit pattern, and the decoded field has that same pattern, whatever
  the value: the sentinel, any negative value, a NaN.
\<close>

theorem EncodeRLP_DecodeRLP_roundtrip:
  assumes "\<And>r. \<exists>w. enc r = Inr w \<and> dec w = Inr r"
  shows "\<exists>w r. EncodeRLP enc s = Inr w \<and> dec w = Inr r \<and>
           rlpGini r = Float64bits (Gini s) \<and>
           DecodeRLP dec s0 w = Inr s \<and>
           (\<forall>s'. DecodeRLP dec s0 w = Inr s' \<longrightarrow> Float64bits (Gini s') = Float64bits (Gini s))"
proof -
  let ?r = "\<lparr>rlpBlockNum = BlockNum s, rlpCouncilNodeAddrs = CouncilNodeAddrs s,
          rlpCouncilStakingAddrs = CouncilStakingAddrs s,
          rlpCouncilRewardAddrs = CouncilRewardAddrs s, rlpKIRAddr = KIRAddr s,
          rlpPoCAddr = PoCAddr s, rlpUseGini = UseGini s,
          rlpGini = Float64bits (Gini s),
          rlpCouncilStakingAmounts = CouncilStakingAmounts s\<rparr>"
  obtain w where w: "enc ?r = Inr w" "dec w = Inr ?r"
    using assms[of ?r] by blast
  have enc: "EncodeRLP enc s = Inr w"
    using w(1) by (simp add: EncodeRLP_def)
  have dec: "DecodeRLP dec s0 w = Inr s"
    using w(2) by (simp add: DecodeRLP_def Float64bits_def Float64frombits_def)
  show ?thesis
    using enc dec w(2) by auto
qed

definition wire_enc :: "stakingInfoRLP \<Rightarrow> unit + stakingInfoRLP" where
  "wire_enc r = Inr r"

definition wire_dec :: "stakingInfoRLP \<Rightarrow> unit + stakingInfoRLP" where
  "wire_dec w = Inr w"

definition sentinel_info :: StakingInfo where
  "sentinel_info =
     \<lparr>BlockNum = 86400, CouncilNodeAddrs = [1, 2], CouncilStakingAddrs = [11, 12],
      CouncilRewardAddrs = [21, 22], KIRAddr = 31, PoCAddr = 32, UseGini = True,
      Gini = 0xBFF0000000000000, CouncilStakingAmounts = [5, 7]\<rparr>"

theorem EncodeRLP_DecodeRLP_roundtrip_witness:
  "\<exists>w r. EncodeRLP wire_enc sentinel_info = Inr w \<and> wire_dec w = Inr r \<and>
         rlpGini r = 0xBFF0000000000000 \<and>
         DecodeRLP wire_dec (newEmptyStakingInfo 0) w = Inr sentinel_info"
  using EncodeRLP_DecodeRLP_roundtrip[of wire_enc wire_dec sentinel_info "newEmptyStakingInfo 0"]
  by (auto simp: wire_enc_def wire_dec_def sentinel_info_def Float64bits_def)

theorem CalcGiniCoefficientMinStake_floor_witness:
  "CalcGiniCoefficientMinStake
     \<lparr>nodes = [\<lparr>NodeAddrs = [1], StakingAddrs = [11], RewardAddr = 21, StakingAmount = 5\<rparr>],
      nodeIndex = Map.empty\<rparr> 6 = 0xBFF0000000000000"
  using CalcGiniCoefficientMinStake_floor[of "\<lparr>nodes = [\<lparr>NodeAddrs = [1], StakingAddrs = [11], RewardAddr = 21, StakingAmount = 5\<rparr>],
      nodeIndex = Map.empty\<rparr>" 6]
  by simp

end
